theory Spec2Isabelle
  imports Complex_Main "HOL-Library.AList" "HOL-Library.Word"
begin

section \<open>The device-code store (backend/auth-device-actions.js)\<close>

text \<open>
  The backend keeps one JavaScript \<open>Map\<close>, \<open>deviceCodes\<close>, with string keys. Under a
  device code it holds a grant object; under \<open>"uc:" + userCode\<close> it holds the device
  code (a string). Both kinds of value live in the same map, so a value is either one.
  A \<open>Map\<close> keeps its entries in insertion order with unique keys: an association
  list, with \<open>AList.update\<close> for \<open>set\<close> (replace in place, or append) and
  \<open>AList.delete\<close> for \<open>delete\<close>.

  Strings are ASCII: \<open>trim\<close> and \<open>toUpperCase\<close> below follow JavaScript on ASCII
  input only. \<open>Date.now()\<close> is an integer number of milliseconds, passed in by the
  caller of each action.
\<close>

datatype status = Pending | Approved | Denied

record grant =
  userCode :: string
  status :: status
  userId :: "string option"
  apiKey :: "string option"
  expiresAt :: int
  createdAt :: int

datatype entry = Grant grant | Ref string

type_synonym store = "(string \<times> entry) list"

definition get_store :: "string \<Rightarrow> store \<Rightarrow> entry option" where
  "get_store k s = map_of s k"

definition set_store :: "string \<Rightarrow> entry \<Rightarrow> store \<Rightarrow> store" where
  "set_store k v s = AList.update k v s"

definition delete_store :: "string \<Rightarrow> store \<Rightarrow> store" where
  "delete_store k s = AList.delete k s"

subsection \<open>The sweep timer\<close>

text \<open>
  \<open>now > entry[1].expiresAt\<close>: a grant object has the field; a string has no such
  property, the comparison is with \<open>undefined\<close> and is false.
\<close>

fun expired :: "int \<Rightarrow> entry \<Rightarrow> bool" where
  "expired now (Grant g) = (now > expiresAt g)"
| "expired now (Ref d) = False"

text \<open>
  The loop visits every entry of the map once and deletes the visited key when its value
  is expired; \<open>todo\<close> is what the iterator has still to visit.
\<close>

fun sweep_loop :: "int \<Rightarrow> store \<Rightarrow> store \<Rightarrow> store" where
  "sweep_loop now [] s = s"
| "sweep_loop now ((k, v) # todo) s =
     sweep_loop now todo (if expired now v then delete_store k s else s)"

definition sweep :: "int \<Rightarrow> store \<Rightarrow> store" where
  "sweep now s = sweep_loop now s s"

subsection \<open>Code generation\<close>

definition chars :: string where
  "chars = ''ABCDEFGHJKLMNPQRSTUVWXYZ23456789''"

text \<open>
  \<open>bytes\<close> is the buffer \<open>crypto.randomBytes(len)\<close> returned, which has \<open>len\<close>
  bytes. Reading past the end of a buffer gives \<open>undefined\<close>, the index is then
  \<open>NaN\<close>, and \<open>code += undefined\<close> appends the text "undefined".
\<close>

fun generateCode_loop :: "8 word list \<Rightarrow> nat \<Rightarrow> nat \<Rightarrow> string \<Rightarrow> string" where
  "generateCode_loop bytes i 0 code = code"
| "generateCode_loop bytes i (Suc n) code =
     generateCode_loop bytes (Suc i) n
       (code @ (if i < length bytes then [chars ! (unat (bytes ! i) mod length chars)]
                else ''undefined''))"

definition generateCode :: "nat \<Rightarrow> 8 word list \<Rightarrow> string" where
  "generateCode len bytes = generateCode_loop bytes 0 len []"

definition hexdigit :: "nat \<Rightarrow> char" where
  "hexdigit n = ''0123456789abcdef'' ! n"

definition toHex :: "8 word list \<Rightarrow> string" where
  "toHex bytes = concat (map (\<lambda>b. [hexdigit (unat b div 16), hexdigit (unat b mod 16)]) bytes)"

subsection \<open>Request normalisation\<close>

definition is_space :: "char \<Rightarrow> bool" where
  "is_space c = (c \<in> set [CHR 0x09, CHR 0x0A, CHR 0x0B, CHR 0x0C, CHR 0x0D, CHR '' ''])"

definition trim :: "string \<Rightarrow> string" where
  "trim s = rev (dropWhile is_space (rev (dropWhile is_space s)))"

definition upper_char :: "char \<Rightarrow> char" where
  "upper_char c =
     (if (97::nat) \<le> of_char c \<and> of_char c \<le> (122::nat) then char_of (of_char c - (32::nat)) else c)"

definition toUpperCase :: "string \<Rightarrow> string" where
  "toUpperCase s = map upper_char s"

text \<open>\<open>req.body.x || ""\<close>: a missing field and the empty string both give \<open>""\<close>.\<close>

fun or_empty :: "string option \<Rightarrow> string" where
  "or_empty None = []"
| "or_empty (Some x) = x"

subsection \<open>Collaborators and responses\<close>

text \<open>
  \<open>authenticate(req)\<close> yields the logged-in user or \<open>null\<close>. The two database
  queries of the token action either reject or resolve; \<open>findUnique\<close> resolves to a
  row or to \<open>null\<close>. A row is given by the fields the response reads from it.
\<close>

record user =
  user_id :: string
  user_apiKey :: string

record profile =
  profile_id :: string
  email :: string
  name :: string
  plan :: string

record membership =
  slug :: string
  workspace_name :: string
  role :: string

datatype 'a query = Rejects | Resolves 'a

datatype payload =
    DeviceCode string string string string nat nat
  | Message string "string option"
  | Credential "string option" profile "membership list"

text \<open>
  \<open>Json p\<close> is \<open>json(res, p)\<close>; \<open>Error m c\<close> is \<open>error(res, m, c)\<close>, with
  \<open>None\<close> when the call passes no status; \<open>StatusJson c e\<close> is
  \<open>res.status(c).json({error: e})\<close>. \<open>QueryRejected\<close> and \<open>TypeError\<close> are the
  exceptions that leave the handler.
\<close>

datatype response =
    Json payload
  | Error string "nat option"
  | StatusJson nat string
  | QueryRejected
  | TypeError

subsection \<open>The four actions\<close>

text \<open>
  The device-code action draws three buffers from \<open>crypto.randomBytes\<close> (32 bytes for
  the device code, 4 and 4 for the two halves of the user code) and reads the clock
  twice: \<open>now1\<close> for \<open>expiresAt\<close>, \<open>now2\<close> for \<open>createdAt\<close>.
\<close>

definition device_code ::
  "8 word list \<Rightarrow> 8 word list \<Rightarrow> 8 word list \<Rightarrow> int \<Rightarrow> int \<Rightarrow> store \<Rightarrow> response \<times> store" where
  "device_code rb r1 r2 now1 now2 s =
     (let deviceCode = toHex rb;
          userCode = generateCode 4 r1 @ ''-'' @ generateCode 4 r2;
          s1 = set_store deviceCode
                 (Grant \<lparr>userCode = userCode, status = Pending, userId = None, apiKey = None,
                         expiresAt = now1 + 600000, createdAt = now2\<rparr>) s;
          s2 = set_store (''uc:'' @ userCode) (Ref deviceCode) s1
      in (Json (DeviceCode deviceCode userCode
                  ''https://cascadeai.dev/hyperstack/device''
                  (''https://cascadeai.dev/hyperstack/device?code='' @ userCode) 600 5), s2))"

text \<open>
  In the approve and deny actions \<open>deviceCode\<close> is whatever the map holds under the
  \<open>uc:\<close> key. An object there is truthy, and looking an object up in a map with string
  keys finds nothing. A string entry has neither \<open>expiresAt\<close> nor \<open>status\<close>.
\<close>

definition device_approve :: "user option \<Rightarrow> string option \<Rightarrow> int \<Rightarrow> store \<Rightarrow> response \<times> store" where
  "device_approve auth body_user_code now s =
     (case auth of
        None \<Rightarrow> (Error ''Login required to approve device'' (Some 401), s)
      | Some u \<Rightarrow>
          (let userCode = toUpperCase (trim (or_empty body_user_code)) in
           if userCode = [] then (Error ''user_code required'' None, s)
           else
             (case get_store (''uc:'' @ userCode) s of
                None \<Rightarrow> (Error ''Invalid or expired code'' (Some 404), s)
              | Some (Grant obj) \<Rightarrow> (Error ''Code expired'' (Some 410), s)
              | Some (Ref deviceCode) \<Rightarrow>
                  if deviceCode = [] then (Error ''Invalid or expired code'' (Some 404), s)
                  else
                    (case get_store deviceCode s of
                       None \<Rightarrow> (Error ''Code expired'' (Some 410), s)
                     | Some (Ref str) \<Rightarrow>
                         if str = [] then (Error ''Code expired'' (Some 410), s)
                         else (Error ''Code already used'' (Some 409), s)
                     | Some (Grant e) \<Rightarrow>
                         if now > expiresAt e then (Error ''Code expired'' (Some 410), s)
                         else if status e \<noteq> Pending then (Error ''Code already used'' (Some 409), s)
                         else
                           (Json (Message ''Device approved'' (Some userCode)),
                            set_store deviceCode
                              (Grant (e\<lparr>status := Approved, userId := Some (user_id u),
                                        apiKey := Some (user_apiKey u)\<rparr>)) s)))))"

text \<open>
  The file is a CommonJS script without \<open>"use strict"\<close>: assigning \<open>status\<close> on a
  string entry is silently ignored.
\<close>

definition device_deny :: "user option \<Rightarrow> string option \<Rightarrow> store \<Rightarrow> response \<times> store" where
  "device_deny auth body_user_code s =
     (case auth of
        None \<Rightarrow> (Error ''Login required'' (Some 401), s)
      | Some u \<Rightarrow>
          (let userCode = toUpperCase (trim (or_empty body_user_code)) in
           (Json (Message ''Device denied'' None),
            (case get_store (''uc:'' @ userCode) s of
               None \<Rightarrow> s
             | Some (Grant obj) \<Rightarrow> s
             | Some (Ref deviceCode) \<Rightarrow>
                 if deviceCode = [] then s
                 else
                   (case get_store deviceCode s of
                      None \<Rightarrow> s
                    | Some (Ref str) \<Rightarrow> s
                    | Some (Grant e) \<Rightarrow> set_store deviceCode (Grant (e\<lparr>status := Denied\<rparr>)) s)))))"

definition device_token ::
  "(string option \<Rightarrow> profile option query) \<Rightarrow> (string option \<Rightarrow> membership list query) \<Rightarrow>
   string option \<Rightarrow> int \<Rightarrow> store \<Rightarrow> response \<times> store" where
  "device_token findUnique findMany body_device_code now s =
     (let deviceCode = or_empty body_device_code in
      if deviceCode = [] then (Error ''device_code required'' None, s)
      else
        (case get_store deviceCode s of
           None \<Rightarrow> (Error ''expired_token'' (Some 410), s)
         | Some (Ref str) \<Rightarrow>
             if str = [] then (Error ''expired_token'' (Some 410), s)
             else (Error ''Unknown state'' (Some 500), s)
         | Some (Grant e) \<Rightarrow>
             if now > expiresAt e then
               (Error ''expired_token'' (Some 410), delete_store deviceCode s)
             else if status e = Denied then
               (Error ''access_denied'' (Some 403),
                delete_store (''uc:'' @ userCode e) (delete_store deviceCode s))
             else if status e = Pending then
               (StatusJson 428 ''authorization_pending'', s)
             else if status e = Approved then
               (case findUnique (userId e) of
                  Rejects \<Rightarrow> (QueryRejected, s)
                | Resolves approvedUser \<Rightarrow>
                    (case findMany (userId e) of
                       Rejects \<Rightarrow> (QueryRejected, s)
                     | Resolves workspaces \<Rightarrow>
                         (let s' = delete_store (''uc:'' @ userCode e) (delete_store deviceCode s) in
                          case approvedUser of
                            None \<Rightarrow> (TypeError, s')
                          | Some row \<Rightarrow> (Json (Credential (apiKey e) row workspaces), s'))))
             else (Error ''Unknown state'' (Some 500), s)))"

subsection \<open>The lookup by pairing code\<close>

text \<open>
  The approve and deny actions find a grant in two steps: the device code under
  \<open>"uc:" + userCode\<close>, then the entry under that device code. \<open>resolves\<close> is that
  chain, yielding the grant object it ends at, if any.
\<close>

definition resolves :: "string \<Rightarrow> store \<Rightarrow> grant option" where
  "resolves code s =
     (case get_store (''uc:'' @ code) s of
        None \<Rightarrow> None
      | Some (Grant obj) \<Rightarrow> None
      | Some (Ref deviceCode) \<Rightarrow>
          if deviceCode = [] then None
          else (case get_store deviceCode s of
                  None \<Rightarrow> None
                | Some (Ref str) \<Rightarrow> None
                | Some (Grant e) \<Rightarrow> Some e))"



section \<open>The poll loop of the client (cli.js, login)\<close>

text \<open>
  \<open>fetch n\<close> is what the \<open>n\<close>-th pass through the \<open>try\<close> block meets: an exception
  from \<open>fetch\<close> or \<open>r.json()\<close>, or a response with its status and parsed body. The
  body is \<open>null\<close> or a value whose \<open>api_key\<close> is present or not. \<open>completes n\<close>
  says that saving the credentials and printing the summary on pass \<open>n\<close> raise nothing.
  Every exception inside the \<open>try\<close> block lands in the \<open>catch\<close>, which prints "x" and
  lets the loop go on. \<open>expires_in\<close> and \<open>interval\<close> are the whole numbers of the
  device-code response; \<open>x || d\<close> replaces a missing or zero value by the default.
  \<open>Math.ceil(a / b)\<close> is taken as the ceiling of the exact quotient, which it is for
  whole numbers below \<open>2^52\<close>.
\<close>

datatype body = Null | Obj "string option"

datatype fetched = Throws | Resp nat body

datatype login_result = LoggedIn string | DeviceDenied | CodeExpired | Unexpected | TimedOut

fun or_default :: "nat option \<Rightarrow> nat \<Rightarrow> nat" where
  "or_default None d = d"
| "or_default (Some n) d = (if n = 0 then d else n)"

definition pollInterval :: "nat option \<Rightarrow> nat" where
  "pollInterval interval = or_default interval 5 * 1000"

definition maxAttempts :: "nat option \<Rightarrow> nat option \<Rightarrow> nat" where
  "maxAttempts expires_in interval =
     nat \<lceil>real (or_default expires_in 600) / real (or_default interval 5)\<rceil>"

text \<open>The result carries \<open>attempt\<close>, the number of token requests the loop has made.\<close>

function poll :: "(nat \<Rightarrow> fetched) \<Rightarrow> (nat \<Rightarrow> bool) \<Rightarrow> nat \<Rightarrow> nat \<Rightarrow> login_result \<times> nat" where
  "poll fetch completes limit attempt =
     (if attempt < limit then
        (case fetch (attempt + 1) of
           Throws \<Rightarrow> poll fetch completes limit (attempt + 1)
         | Resp st data \<Rightarrow>
             if st = 428 then poll fetch completes limit (attempt + 1)
             else if st = 403 then (DeviceDenied, attempt + 1)
             else if st = 410 then (CodeExpired, attempt + 1)
             else if 200 \<le> st \<and> st \<le> 299 then
               (case data of
                  Null \<Rightarrow> poll fetch completes limit (attempt + 1)
                | Obj None \<Rightarrow> (Unexpected, attempt + 1)
                | Obj (Some api_key) \<Rightarrow>
                    if api_key = [] then (Unexpected, attempt + 1)
                    else if completes (attempt + 1) then (LoggedIn api_key, attempt + 1)
                    else poll fetch completes limit (attempt + 1))
             else (Unexpected, attempt + 1))
      else (TimedOut, attempt))"
  by pat_completeness auto
termination
  by (relation "measure (\<lambda>(fetch, completes, limit, attempt). limit - attempt)") auto

definition login_poll ::
  "(nat \<Rightarrow> fetched) \<Rightarrow> (nat \<Rightarrow> bool) \<Rightarrow> nat option \<Rightarrow> nat option \<Rightarrow> login_result \<times> nat" where
  "login_poll fetch completes expires_in interval =
     poll fetch completes (maxAttempts expires_in interval) 0"

text \<open>The line printed for each way out of the loop (its ASCII words).\<close>

fun report :: "login_result \<Rightarrow> string" where
  "report (LoggedIn k) = ''Logged in as''"
| "report DeviceDenied = ''Device denied.''"
| "report CodeExpired = ''Code expired.''"
| "report Unexpected = ''Unexpected response:''"
| "report TimedOut = ''Timed out.''"

text \<open>A pass that ends neither the loop nor the login: a transport error or a 428.\<close>

fun transient :: "fetched \<Rightarrow> bool" where
  "transient Throws = True"
| "transient (Resp st data) = (st = 428)"

section \<open>Sample data\<close>

definition alice :: user where
  "alice = \<lparr>user_id = ''u1'', user_apiKey = ''hs_alice''\<rparr>"

definition bob :: user where
  "bob = \<lparr>user_id = ''u2'', user_apiKey = ''hs_bob''\<rparr>"

definition alice_row :: profile where
  "alice_row = \<lparr>profile_id = ''u1'', email = ''alice@example.org'', name = ''Alice'', plan = ''free''\<rparr>"

definition users_table :: "string option \<Rightarrow> profile option query" where
  "users_table uid = Resolves (if uid = Some ''u1'' then Some alice_row else None)"

definition members_table :: "string option \<Rightarrow> membership list query" where
  "members_table uid =
     Resolves (if uid = Some ''u1''
               then [\<lparr>slug = ''default'', workspace_name = ''Default'', role = ''owner''\<rparr>] else [])"

definition device_bytes :: "8 word list" where
  "device_bytes = replicate 32 0xd1"

definition code_bytes1 :: "8 word list" where
  "code_bytes1 = [0, 1, 2, 3]"

definition code_bytes2 :: "8 word list" where
  "code_bytes2 = [4, 5, 24, 25]"

text \<open>The store after one device-code request at time 0, and after alice approved it.\<close>

definition fresh_store :: store where
  "fresh_store = snd (device_code device_bytes code_bytes1 code_bytes2 0 0 [])"

definition approved_store :: store where
  "approved_store = snd (device_approve (Some alice) (Some ''ABCD-EF23'') 1000 fresh_store)"

definition flaky_fetch :: "nat \<Rightarrow> fetched" where
  "flaky_fetch n = (if even n then Throws else Resp 428 (Obj None))"

definition always_completes :: "nat \<Rightarrow> bool" where
  "always_completes n = True"

section \<open>Store lemmas\<close>

lemma get_set_store:
  "get_store k (set_store k' v s) = (if k = k' then Some v else get_store k s)"
  by (simp add: get_store_def set_store_def update_conv')

lemma get_delete_store:
  "get_store k (delete_store k' s) = (if k = k' then None else get_store k s)"
  by (simp add: get_store_def delete_store_def delete_conv')

text \<open>A device code is lower-case hexadecimal, so it is never a \<open>uc:\<close> key.\<close>

lemma hexdigit_not_u: "m < 16 \<Longrightarrow> hexdigit m \<noteq> CHR ''u''"
proof -
  assume "m < 16"
  then have "m \<in> set [0..<16]" by simp
  then show ?thesis unfolding hexdigit_def by (simp add: upt_conv_Cons) (elim disjE; simp)
qed

lemma toHex_not_uc: "toHex rb \<noteq> ''uc:'' @ x"
proof (cases rb)
  case Nil
  then show ?thesis by (simp add: toHex_def)
next
  case (Cons b bs)
  have "unat b div 16 < 16" using unsigned_less[of b, where ?'a = nat] by simp
  then have "hexdigit (unat b div 16) \<noteq> CHR ''u''" by (rule hexdigit_not_u)
  then show ?thesis using Cons by (simp add: toHex_def)
qed

lemma toHex_nonempty: "rb \<noteq> [] \<Longrightarrow> toHex rb \<noteq> []"
  by (cases rb) (simp_all add: toHex_def)

text \<open>What a successful approval tells about the store it ran on.\<close>

lemma device_approve_success:
  assumes "device_approve (Some u) body now s = (Json p, s1)"
  shows "\<exists>d e. toUpperCase (trim (or_empty body)) \<noteq> []
          \<and> p = Message ''Device approved'' (Some (toUpperCase (trim (or_empty body))))
          \<and> get_store (''uc:'' @ toUpperCase (trim (or_empty body))) s = Some (Ref d) \<and> d \<noteq> []
          \<and> get_store d s = Some (Grant e) \<and> now \<le> expiresAt e \<and> status e = Pending
          \<and> s1 = set_store d (Grant (e\<lparr>status := Approved, userId := Some (user_id u),
                                        apiKey := Some (user_apiKey u)\<rparr>)) s"
  using assms
  by (auto simp: device_approve_def Let_def split: option.splits entry.splits if_splits)

section \<open>Normalisation lemmas\<close>







section \<open>Poll loop lemmas\<close>

lemma ceil_div_nat_aux:
  fixes a b :: nat
  assumes b: "0 < b"
  shows "(a + b - 1) div b = (if a mod b = 0 then a div b else a div b + 1)"
proof -
  define q r where "q = a div b" and "r = a mod b"
  have a: "a = q * b + r" and r: "r < b" using b by (simp_all add: q_def r_def)
  show ?thesis
  proof (cases "r = 0")
    case True
    have e: "a + b - 1 = q * b + (b - 1)" using a True b by simp
    have "(q * b + (b - 1)) div b = q + (b - 1) div b" using b by (simp only: div_mult_self3)
    also have "(b - 1) div b = 0" using b by simp
    finally show ?thesis using True e by (simp add: q_def r_def)
  next
    case False
    have e: "a + b - 1 = (q + 1) * b + (r - 1)" using a False b by simp
    have "((q + 1) * b + (r - 1)) div b = (q + 1) + (r - 1) div b"
      using b by (simp only: div_mult_self3)
    also have "(r - 1) div b = 0" using r by simp
    finally show ?thesis using False e by (simp add: q_def r_def)
  qed
qed

lemma ceil_div_nat:
  fixes a b :: nat
  assumes b: "0 < b"
  shows "nat \<lceil>real a / real b\<rceil> = (a + b - 1) div b"
proof -
  have "\<lceil>real a / real b\<rceil> = \<lceil>real_of_int (int a) / real_of_int (int b)\<rceil>" by simp
  also have "\<dots> = - ((- int a) div int b)" by (simp only: ceiling_divide_eq_div)
  also have "\<dots> = (if int a mod int b = 0 then int a div int b else int a div int b + 1)"
    using b by (simp add: zdiv_zminus1_eq_if)
  also have "\<dots> = int (if a mod b = 0 then a div b else a div b + 1)"
  proof -
    have m: "int a mod int b = int (a mod b)" by (rule zmod_int[symmetric])
    have d: "int a div int b = int (a div b)" by (rule zdiv_int[symmetric])
    show ?thesis unfolding m d by simp
  qed
  also have "\<dots> = int ((a + b - 1) div b)" by (simp only: ceil_div_nat_aux[OF b])
  finally show ?thesis by simp
qed

lemma or_default_pos: "0 < d \<Longrightarrow> 0 < or_default x d"
  by (cases x) auto

lemma maxAttempts_div:
  "maxAttempts e i = (or_default e 600 + or_default i 5 - 1) div or_default i 5"
  unfolding maxAttempts_def by (rule ceil_div_nat) (simp add: or_default_pos)

declare poll.simps [simp del]

lemma poll_done: "\<not> attempt < limit \<Longrightarrow> poll fetch completes limit attempt = (TimedOut, attempt)"
  by (subst poll.simps) simp

lemma poll_step:
  "attempt < limit \<Longrightarrow>
   poll fetch completes limit attempt =
     (case fetch (attempt + 1) of
        Throws \<Rightarrow> poll fetch completes limit (attempt + 1)
      | Resp st data \<Rightarrow>
          if st = 428 then poll fetch completes limit (attempt + 1)
          else if st = 403 then (DeviceDenied, attempt + 1)
          else if st = 410 then (CodeExpired, attempt + 1)
          else if 200 \<le> st \<and> st \<le> 299 then
            (case data of
               Null \<Rightarrow> poll fetch completes limit (attempt + 1)
             | Obj None \<Rightarrow> (Unexpected, attempt + 1)
             | Obj (Some api_key) \<Rightarrow>
                 if api_key = [] then (Unexpected, attempt + 1)
                 else if completes (attempt + 1) then (LoggedIn api_key, attempt + 1)
                 else poll fetch completes limit (attempt + 1))
          else (Unexpected, attempt + 1))"
  by (subst poll.simps) simp

lemma poll_le: "attempt \<le> limit \<Longrightarrow> snd (poll fetch completes limit attempt) \<le> limit"
proof (induction "limit - attempt" arbitrary: attempt)
  case 0
  then show ?case by (simp add: poll_done)
next
  case (Suc n)
  then have lt: "attempt < limit" and n: "n = limit - (attempt + 1)" and le: "attempt + 1 \<le> limit"
    by simp_all
  from Suc.hyps(1)[OF n le] le show ?case
    by (simp add: poll_step[OF lt] split: fetched.split body.split option.split)
qed

lemma poll_timed_out:
  "attempt \<le> limit \<Longrightarrow> fst (poll fetch completes limit attempt) = TimedOut \<Longrightarrow>
   snd (poll fetch completes limit attempt) = limit"
proof (induction "limit - attempt" arbitrary: attempt)
  case 0
  then show ?case by (simp add: poll_done)
next
  case (Suc n)
  then have lt: "attempt < limit" and n: "n = limit - (attempt + 1)" and le: "attempt + 1 \<le> limit"
    by simp_all
  from Suc.hyps(1)[OF n le] Suc.prems(2) show ?case
    by (simp add: poll_step[OF lt] split: fetched.splits body.splits option.splits if_splits)
qed

lemma poll_transient:
  "attempt \<le> limit \<Longrightarrow> (\<forall>n. attempt < n \<and> n \<le> limit \<longrightarrow> transient (fetch n)) \<Longrightarrow>
   poll fetch completes limit attempt = (TimedOut, limit)"
proof (induction "limit - attempt" arbitrary: attempt)
  case 0
  then show ?case by (simp add: poll_done)
next
  case (Suc n)
  then have lt: "attempt < limit" and n: "n = limit - (attempt + 1)" and le: "attempt + 1 \<le> limit"
    by simp_all
  from Suc.prems(2) lt have tr: "transient (fetch (attempt + 1))" by simp
  from Suc.prems(2) have rest: "\<forall>n. attempt + 1 < n \<and> n \<le> limit \<longrightarrow> transient (fetch n)" by simp
  from Suc.hyps(1)[OF n le rest] tr show ?case
    by (cases "fetch (attempt + 1)") (simp_all add: poll_step[OF lt])
qed

section \<open>Claims\<close>

text \<open>
  Claim C1 (what the code does): removing an expired grant leaves its pairing-code entry
  behind. A grant is created at time 0 and expires at 600000. One sweep at 600001
  removes the entry under the device code, and so does a token request at 600001, which
  answers 410; in both cases the entry under \<open>uc:ABCD-EF23\<close> is still in the store,
  pointing at the device code that is gone (the pairing code leads to no grant any more,
  but its entry is never removed). The denied and approved branches of the token action
  delete both entries.
\<close>

theorem expiry_leaves_pairing_index:
  "resolves ''ABCD-EF23'' fresh_store \<noteq> None
   \<and> get_store (toHex device_bytes) (sweep 600001 fresh_store) = None
   \<and> get_store ''uc:ABCD-EF23'' (sweep 600001 fresh_store) = Some (Ref (toHex device_bytes))
   \<and> resolves ''ABCD-EF23'' (sweep 600001 fresh_store) = None
   \<and> fst (device_token users_table members_table (Some (toHex device_bytes)) 600001 fresh_store)
       = Error ''expired_token'' (Some 410)
   \<and> get_store ''uc:ABCD-EF23''
         (snd (device_token users_table members_table (Some (toHex device_bytes)) 600001 fresh_store))
       = Some (Ref (toHex device_bytes))"
  by code_simp

text \<open>
  Claim C2 (amended): the device-code action always answers with the success payload.
  Afterwards the store holds, under the generated device code, a fresh pending grant, and
  under the generated pairing code's \<open>uc:\<close> key, that device code, whatever either key
  held before.
\<close>

theorem device_code_always_succeeds:
  "fst (device_code rb r1 r2 now1 now2 s)
     = Json (DeviceCode (toHex rb) (generateCode 4 r1 @ ''-'' @ generateCode 4 r2)
               ''https://cascadeai.dev/hyperstack/device''
               (''https://cascadeai.dev/hyperstack/device?code='' @ generateCode 4 r1 @ ''-'' @ generateCode 4 r2)
               600 5)
   \<and> get_store (toHex rb) (snd (device_code rb r1 r2 now1 now2 s))
     = Some (Grant \<lparr>userCode = generateCode 4 r1 @ ''-'' @ generateCode 4 r2, status = Pending,
                     userId = None, apiKey = None, expiresAt = now1 + 600000, createdAt = now2\<rparr>)
   \<and> get_store (''uc:'' @ generateCode 4 r1 @ ''-'' @ generateCode 4 r2)
         (snd (device_code rb r1 r2 now1 now2 s))
     = Some (Ref (toHex rb))"
  using toHex_not_uc[of rb "generateCode 4 r1 @ ''-'' @ generateCode 4 r2"]
  by (simp add: device_code_def Let_def get_set_store)

text \<open>
  The claim as written fails: a second device-code request that draws the bytes of a
  grant alice has already approved is answered with the success payload, and the
  approved grant is replaced by a pending one.
\<close>

theorem device_code_overwrites_counterexample:
  "map_option status (resolves ''ABCD-EF23'' approved_store) = Some Approved
   \<and> fst (device_code device_bytes code_bytes1 code_bytes2 5000 5000 approved_store)
       = Json (DeviceCode (toHex device_bytes) ''ABCD-EF23''
                 ''https://cascadeai.dev/hyperstack/device''
                 ''https://cascadeai.dev/hyperstack/device?code=ABCD-EF23'' 600 5)
   \<and> resolves ''ABCD-EF23'' (snd (device_code device_bytes code_bytes1 code_bytes2 5000 5000 approved_store))
       = Some \<lparr>userCode = ''ABCD-EF23'', status = Pending, userId = None, apiKey = None,
               expiresAt = 605000, createdAt = 5000\<rparr>"
  by code_simp

text \<open>
  Claim C3 (what the code does): a deny after a successful approve turns the grant from
  approved to denied. The deny action has no guard on the status, where the approve action
  refuses a grant that is not pending. The next token request is then answered 403.
\<close>

theorem deny_after_approve_sets_denied:
  "map_option status (resolves ''ABCD-EF23'' approved_store) = Some Approved
   \<and> map_option status
        (resolves ''ABCD-EF23'' (snd (device_deny (Some bob) (Some ''ABCD-EF23'') approved_store)))
       = Some Denied
   \<and> fst (device_token users_table members_table (Some (toHex device_bytes)) 2000
            (snd (device_deny (Some bob) (Some ''ABCD-EF23'') approved_store)))
       = Error ''access_denied'' (Some 403)"
  by code_simp

text \<open>
  Claim C4: a grant is created, then approved by an authenticated user who typed its
  pairing code, then redeemed, all within the ten minutes of its lifetime and with the
  profile lookup finding the approver. The approval succeeds, the first token request on
  the device code is answered with the credential payload (the approver's API key, row
  and workspaces), and on the store it leaves every further token request on that device
  code, at any time, is answered 410 \<open>expired_token\<close> and leaves the store as it is,
  so the same holds for the request after it, and so on.
\<close>

theorem issued_exactly_once:
  assumes len: "length rb = 32"
      and create: "device_code rb r1 r2 t0 t0' s = (resp0, s1)"
      and typed: "toUpperCase (trim (or_empty body)) = generateCode 4 r1 @ ''-'' @ generateCode 4 r2"
      and approve: "device_approve (Some u) body t1 s1 = (resp1, s2)"
      and t1: "t1 \<le> t0 + 600000"
      and redeem: "device_token findUnique findMany (Some (toHex rb)) t2 s2 = (resp2, s3)"
      and t2: "t2 \<le> t0 + 600000"
      and row: "findUnique (Some (user_id u)) = Resolves (Some row)"
      and ws: "findMany (Some (user_id u)) = Resolves ws"
  shows "resp1 = Json (Message ''Device approved'' (Some (generateCode 4 r1 @ ''-'' @ generateCode 4 r2)))
       \<and> resp2 = Json (Credential (Some (user_apiKey u)) row ws)
       \<and> (\<forall>fu fm t. device_token fu fm (Some (toHex rb)) t s3 = (Error ''expired_token'' (Some 410), s3))"
proof -
  let ?uc = "generateCode 4 r1 @ ''-'' @ generateCode 4 r2"
  let ?d = "toHex rb"
  let ?g = "\<lparr>userCode = ?uc, status = Pending, userId = None, apiKey = None,
            expiresAt = t0 + 600000, createdAt = t0'\<rparr>"
  let ?g' = "?g\<lparr>status := Approved, userId := Some (user_id u), apiKey := Some (user_apiKey u)\<rparr>"
  from len have "rb \<noteq> []" by auto
  then have d: "?d \<noteq> []" by (rule toHex_nonempty)
  have neq: "?d \<noteq> ''uc:'' @ ?uc" by (rule toHex_not_uc)
  from create have s1: "s1 = set_store (''uc:'' @ ?uc) (Ref ?d) (set_store ?d (Grant ?g) s)"
    by (simp add: device_code_def Let_def)
  have g1: "get_store ?d s1 = Some (Grant ?g)" using neq by (simp add: s1 get_set_store)
  have u1: "get_store (''uc:'' @ ?uc) s1 = Some (Ref ?d)" by (simp add: s1 get_set_store)
  from approve typed g1 u1 d t1 have r1: "resp1 = Json (Message ''Device approved'' (Some ?uc))"
    and s2: "s2 = set_store ?d (Grant ?g') s1"
    by (simp_all add: device_approve_def Let_def)
  have g2: "get_store ?d s2 = Some (Grant ?g')" by (simp add: s2 get_set_store)
  from redeem g2 d t2 row ws have r2: "resp2 = Json (Credential (Some (user_apiKey u)) row ws)"
    and s3: "s3 = delete_store (''uc:'' @ ?uc) (delete_store ?d s2)"
    by (simp_all add: device_token_def Let_def)
  have g3: "get_store ?d s3 = None" by (simp add: s3 get_delete_store)
  have "\<forall>fu fm t. device_token fu fm (Some ?d) t s3 = (Error ''expired_token'' (Some 410), s3)"
    using g3 d by (simp add: device_token_def)
  with r1 r2 show ?thesis by simp
qed

text \<open>The run of C4 with the sample data: create at 0, approve at 1000, redeem at 2000 and 3000.\<close>

theorem issued_exactly_once_witness:
  "fst (device_approve (Some alice) (Some '' abcd-ef23 '') 1000 fresh_store)
     = Json (Message ''Device approved'' (Some ''ABCD-EF23''))
   \<and> fst (device_token users_table members_table (Some (toHex device_bytes)) 2000
            (snd (device_approve (Some alice) (Some '' abcd-ef23 '') 1000 fresh_store)))
     = Json (Credential (Some ''hs_alice'') alice_row
               [\<lparr>slug = ''default'', workspace_name = ''Default'', role = ''owner''\<rparr>])
   \<and> fst (device_token users_table members_table (Some (toHex device_bytes)) 3000
            (snd (device_token users_table members_table (Some (toHex device_bytes)) 2000
                   (snd (device_approve (Some alice) (Some '' abcd-ef23 '') 1000 fresh_store)))))
     = Error ''expired_token'' (Some 410)"
proof -
  let ?s1 = "fresh_store"
  let ?a = "device_approve (Some alice) (Some '' abcd-ef23 '') 1000 ?s1"
  let ?r = "device_token users_table members_table (Some (toHex device_bytes)) 2000 (snd ?a)"
  have len: "length device_bytes = 32" by (simp add: device_bytes_def)
  have create: "device_code device_bytes code_bytes1 code_bytes2 0 0 []
                  = (fst (device_code device_bytes code_bytes1 code_bytes2 0 0 []), ?s1)"
    by (simp add: fresh_store_def)
  have typed: "toUpperCase (trim (or_empty (Some '' abcd-ef23 '')))
                 = generateCode 4 code_bytes1 @ ''-'' @ generateCode 4 code_bytes2"
    by code_simp
  have approve: "?a = (fst ?a, snd ?a)" by simp
  have redeem: "?r = (fst ?r, snd ?r)" by simp
  have row: "users_table (Some (user_id alice)) = Resolves (Some alice_row)"
    by (simp add: users_table_def alice_def)
  have ws: "members_table (Some (user_id alice))
              = Resolves [\<lparr>slug = ''default'', workspace_name = ''Default'', role = ''owner''\<rparr>]"
    by (simp add: members_table_def alice_def)
  have code: "generateCode 4 code_bytes1 @ ''-'' @ generateCode 4 code_bytes2 = ''ABCD-EF23''"
    by code_simp
  have key: "user_apiKey alice = ''hs_alice''" by (simp add: alice_def)
  from issued_exactly_once[OF len create typed approve _ redeem _ row ws]
  show ?thesis unfolding code key by simp
qed

text \<open>
  Claim C6 (amended): a token request whose device code is not empty and has no entry in
  the store is answered 410 \<open>expired_token\<close>, never 428, and leaves the store as it is.
  An empty device code is turned away before the lookup with \<open>device_code required\<close>.
\<close>

theorem device_token_unknown:
  assumes "get_store d s = None"
  shows "device_token findUnique findMany (Some d) now s =
           (if d = [] then Error ''device_code required'' None
            else Error ''expired_token'' (Some 410), s)"
  using assms by (simp add: device_token_def)

text \<open>A device code that was never issued, asked for while another grant is pending.\<close>

theorem device_token_unknown_witness:
  "device_token users_table members_table (Some ''d1'') 0 fresh_store
     = (Error ''expired_token'' (Some 410), fresh_store)"
proof -
  have "get_store ''d1'' fresh_store = None" by code_simp
  from device_token_unknown[OF this, of users_table members_table 0] show ?thesis by simp
qed

text \<open>
  The claim as written fails for the empty device code: it was never created, and the
  answer is \<open>device_code required\<close> with the default status, not 410.
\<close>

theorem device_token_empty_counterexample:
  "get_store [] [] = None
   \<and> fst (device_token users_table members_table (Some []) 0 []) = Error ''device_code required'' None
   \<and> fst (device_token users_table members_table (Some []) 0 []) \<noteq> Error ''expired_token'' (Some 410)"
  by code_simp

text \<open>
  A \<open>uc:\<close> key sent as device code does have an entry, the device code it points at:
  the token action finds a string where it expects a grant and answers 500.
\<close>

lemma device_token_on_index_key:
  "device_token users_table members_table (Some ''uc:ABCD-EF23'') 1000 fresh_store
     = (Error ''Unknown state'' (Some 500), fresh_store)"
  by code_simp

text \<open>
  Claim C7: after a successful approval, a second approve call with the same pairing code
  (as normalised), made before the grant expires, is answered 409 \<open>Code already used\<close>
  and leaves the store unchanged; the grant carries the user id and the API key of the
  first approver only.
\<close>

theorem second_approve_already_used:
  assumes first: "device_approve (Some u1) body1 t1 s = (Json (Message ''Device approved'' (Some code)), s1)"
      and g0: "resolves code s = Some g0"
      and same: "toUpperCase (trim (or_empty body2)) = toUpperCase (trim (or_empty body1))"
      and live: "t2 \<le> expiresAt g0"
  shows "resolves code s1 = Some (g0\<lparr>status := Approved, userId := Some (user_id u1), apiKey := Some (user_apiKey u1)\<rparr>)
       \<and> device_approve (Some u2) body2 t2 s1 = (Error ''Code already used'' (Some 409), s1)"
proof -
  from device_approve_success[OF first] obtain d e where
    ne: "toUpperCase (trim (or_empty body1)) \<noteq> []"
    and code: "code = toUpperCase (trim (or_empty body1))"
    and uc: "get_store (''uc:'' @ code) s = Some (Ref d)" and d: "d \<noteq> []"
    and e: "get_store d s = Some (Grant e)" and pend: "status e = Pending"
    and s1: "s1 = set_store d (Grant (e\<lparr>status := Approved, userId := Some (user_id u1),
                                        apiKey := Some (user_apiKey u1)\<rparr>)) s"
    by auto
  from g0 uc d e have ge: "g0 = e" by (simp add: resolves_def)
  from uc e have neq: "''uc:'' @ code \<noteq> d" by auto
  have uc1: "get_store (''uc:'' @ code) s1 = Some (Ref d)"
    using uc neq by (simp add: s1 get_set_store)
  have e1: "get_store d s1 = Some (Grant (e\<lparr>status := Approved, userId := Some (user_id u1),
                                        apiKey := Some (user_apiKey u1)\<rparr>))"
    by (simp add: s1 get_set_store)
  have r: "resolves code s1 = Some (g0\<lparr>status := Approved, userId := Some (user_id u1), apiKey := Some (user_apiKey u1)\<rparr>)"
    using uc1 e1 d ge by (simp add: resolves_def)
  have a: "device_approve (Some u2) body2 t2 s1 = (Error ''Code already used'' (Some 409), s1)"
    using uc1 e1 d ne live ge same code by (simp add: device_approve_def Let_def)
  from r a show ?thesis by simp
qed

text \<open>Alice approves at 1000; bob tries the same code at 2000.\<close>

theorem second_approve_already_used_witness:
  "resolves ''ABCD-EF23'' approved_store
     = Some \<lparr>userCode = ''ABCD-EF23'', status = Approved, userId = Some ''u1'',
             apiKey = Some ''hs_alice'', expiresAt = 600000, createdAt = 0\<rparr>
   \<and> device_approve (Some bob) (Some ''abcd-ef23 '') 2000 approved_store
     = (Error ''Code already used'' (Some 409), approved_store)"
proof -
  let ?g0 = "\<lparr>userCode = ''ABCD-EF23'', status = Pending, userId = None,
              apiKey = None, expiresAt = 600000, createdAt = 0\<rparr>"
  have first: "device_approve (Some alice) (Some ''ABCD-EF23'') 1000 fresh_store
                 = (Json (Message ''Device approved'' (Some ''ABCD-EF23'')), approved_store)"
    by code_simp
  have g0: "resolves ''ABCD-EF23'' fresh_store = Some ?g0" by code_simp
  have same: "toUpperCase (trim (or_empty (Some ''abcd-ef23 '')))
                = toUpperCase (trim (or_empty (Some ''ABCD-EF23'')))"
    by code_simp
  have live: "2000 \<le> expiresAt ?g0" by simp
  from second_approve_already_used[OF first g0 same live, of bob]
  show ?thesis by (simp add: alice_def)
qed

text \<open>
  Claim C8: for an authenticated caller, a deny whose pairing code does not lead to a
  grant in the store answers \<open>Device denied\<close> and changes nothing; and whatever the code
  and the store, the answer to an authenticated deny is that same success payload, so it
  tells nothing about the code.
\<close>

theorem device_deny_unknown_code:
  assumes "resolves (toUpperCase (trim (or_empty body))) s = None"
  shows "device_deny (Some u) body s = (Json (Message ''Device denied'' None), s)
       \<and> (\<forall>body' s'. fst (device_deny (Some u) body' s') = Json (Message ''Device denied'' None))"
proof -
  have "device_deny (Some u) body s = (Json (Message ''Device denied'' None), s)"
    using assms
    by (auto simp: device_deny_def resolves_def Let_def split: option.splits entry.splits if_splits)
  moreover have "\<forall>body' s'. fst (device_deny (Some u) body' s') = Json (Message ''Device denied'' None)"
    by (simp add: device_deny_def Let_def)
  ultimately show ?thesis by simp
qed

text \<open>A code nobody was given, denied while another grant is pending.\<close>

theorem device_deny_unknown_code_witness:
  "device_deny (Some alice) (Some ''zzzz-zzzz'') fresh_store
     = (Json (Message ''Device denied'' None), fresh_store)"
proof -
  have "resolves (toUpperCase (trim (or_empty (Some ''zzzz-zzzz'')))) fresh_store = None"
    by code_simp
  from device_deny_unknown_code[OF this, of alice] show ?thesis by simp
qed

text \<open>
  Claim C9: the poll loop makes at most \<open>ceil(expires_in / interval)\<close> token requests
  (with the defaults 600 and 5 for missing or zero values). While every pass meets a
  transport error or a 428, in any mix, the loop runs through exactly that many
  requests and ends with the timeout; a timeout is reported only when the budget is used
  up; and the timeout line differs from the line for a 410.
\<close>

theorem login_poll_attempt_budget:
  "snd (login_poll fetch completes expires_in interval)
     \<le> nat \<lceil>real (or_default expires_in 600) / real (or_default interval 5)\<rceil>
   \<and> ((\<forall>n. 1 \<le> n \<and> n \<le> maxAttempts expires_in interval \<longrightarrow> transient (fetch n)) \<longrightarrow>
        login_poll fetch completes expires_in interval = (TimedOut, maxAttempts expires_in interval))
   \<and> (fst (login_poll fetch completes expires_in interval) = TimedOut \<longrightarrow>
        snd (login_poll fetch completes expires_in interval) = maxAttempts expires_in interval)
   \<and> report TimedOut \<noteq> report CodeExpired"
proof -
  let ?N = "maxAttempts expires_in interval"
  have a: "snd (login_poll fetch completes expires_in interval)
             \<le> nat \<lceil>real (or_default expires_in 600) / real (or_default interval 5)\<rceil>"
    using poll_le[of 0 ?N fetch completes] by (simp add: login_poll_def maxAttempts_def)
  have b: "(\<forall>n. 1 \<le> n \<and> n \<le> ?N \<longrightarrow> transient (fetch n)) \<longrightarrow>
           login_poll fetch completes expires_in interval = (TimedOut, ?N)"
  proof
    assume "\<forall>n. 1 \<le> n \<and> n \<le> ?N \<longrightarrow> transient (fetch n)"
    then have "\<forall>n. 0 < n \<and> n \<le> ?N \<longrightarrow> transient (fetch n)" by simp
    then show "login_poll fetch completes expires_in interval = (TimedOut, ?N)"
      unfolding login_poll_def by (intro poll_transient) simp_all
  qed
  have c: "fst (login_poll fetch completes expires_in interval) = TimedOut \<longrightarrow>
           snd (login_poll fetch completes expires_in interval) = ?N"
    unfolding login_poll_def using poll_timed_out[of 0 ?N fetch completes] by simp
  have d: "report TimedOut \<noteq> report CodeExpired" by simp
  from a b c d show ?thesis by blast
qed

text \<open>
  A server that alternates between failing and answering 428: 600 / 5 = 120 requests,
  then the timeout.
\<close>

theorem login_poll_attempt_budget_witness:
  "login_poll flaky_fetch always_completes (Some 600) (Some 5) = (TimedOut, 120)"
proof -
  have n: "maxAttempts (Some 600) (Some 5) = 120" by (simp add: maxAttempts_div)
  have h: "\<forall>n. 1 \<le> n \<and> n \<le> maxAttempts (Some 600) (Some 5) \<longrightarrow> transient (flaky_fetch n)"
    by (simp add: flaky_fetch_def)
  from login_poll_attempt_budget[of flaky_fetch always_completes "Some 600" "Some 5"] h
  have "login_poll flaky_fetch always_completes (Some 600) (Some 5)
          = (TimedOut, maxAttempts (Some 600) (Some 5))"
    by blast
  then show ?thesis by (simp only: n)
qed



end
